theory Spec2Isabelle
  imports Main
begin

section \<open>The q language server: data model\<close>

text \<open>
  The development embeds the language-server module (class \<open>QLangServer\<close> and its
  helper functions \<open>rangeFromToken\<close>, \<open>positionToToken\<close>, \<open>relative\<close>,
  \<open>createCompletionItem\<close>, \<open>createTextEdit\<close>, \<open>createSymbol\<close>,
  \<open>createDebugSymbol\<close>). The module imports its token type and the functions
  \<open>findIdentifiers\<close>, \<open>inLambda\<close>, \<open>amended\<close>, \<open>parse\<close>, \<open>identifier\<close>,
  \<open>tokenId\<close>, \<open>assigned\<close>, \<open>lambda\<close>, \<open>assignable\<close>, \<open>qualified\<close> from
  \<open>./parser\<close>; the parser module itself lies outside this development.
\<close>

subsection \<open>Tokens\<close>

text \<open>
  A token as the server reads it: \<open>image\<close>, the name of its \<open>tokenType\<close>, the four
  optional 1-based position fields, and the annotations \<open>namespace\<close>, \<open>error\<close>,
  \<open>order\<close>, \<open>tangled\<close>, \<open>scope\<close>, \<open>assignment\<close>. An optional field that is
  \<open>undefined\<close> is \<open>None\<close>. Position fields are JavaScript numbers, here \<open>int\<close>;
  \<open>None\<close> also stands for \<open>NaN\<close>, which is as falsy as \<open>undefined\<close>.
  References to other tokens are held by value, and \<open>===\<close> on tokens is equality of
  these values. The selector for \<open>image\<close> is \<open>image_t\<close>, since \<open>image\<close> is taken.
\<close>

datatype Token = Token
  (image_t: string)
  (tokenType: string)
  (startLine: "int option")
  (startColumn: "int option")
  (endLine: "int option")
  (endColumn: "int option")
  (namespace: "string option")
  (error: "nat option")
  (order: "nat option")
  (tangled: "Token option")
  (scope: "Token option")
  (assignment: "Token list option")

subsection \<open>Protocol values\<close>

text \<open>
  \<open>Position\<close>, \<open>Range\<close>, \<open>TextEdit\<close>, \<open>WorkspaceEdit\<close>, \<open>CompletionItem\<close> and
  \<open>DocumentSymbol\<close> are the plain objects of the language-server protocol; their
  \<open>create\<close> functions are taken as the constructors of these objects.
\<close>

record Position =
  line :: int
  character :: int

record Range =
  range_start :: Position
  range_end :: Position

definition Range_create :: "int \<Rightarrow> int \<Rightarrow> int \<Rightarrow> int \<Rightarrow> Range" where
  "Range_create a b c d =
     \<lparr>range_start = \<lparr>line = a, character = b\<rparr>, range_end = \<lparr>line = c, character = d\<rparr>\<rparr>"

record TextEdit =
  edit_range :: Range
  newText :: string

record WorkspaceEdit =
  changes :: "string \<rightharpoonup> TextEdit list"

datatype CompletionItemKind = Function | Variable

record CompletionItem =
  label :: string
  labelDetail :: string
  insertText :: string
  kind :: CompletionItemKind

datatype SymbolKind = SymbolObject | SymbolVariable

datatype DocumentSymbol = DocumentSymbol
  (symbol_name: string)
  (symbol_detail: "string option")
  (symbol_kind: SymbolKind)
  (symbol_range: Range)
  (selectionRange: Range)
  (children: "DocumentSymbol list option")

subsection \<open>The imported parser module\<close>

datatype FindKind = Reference | Definition | Rename | Completion

text \<open>
  The functions imported from \<open>./parser\<close> are parameters of the server: every
  server function below takes the module as its first argument \<open>P\<close>, and what is
  proved of the server holds for every parser. As the server uses them,
  \<open>assigned\<close> and \<open>inLambda\<close> return a token or \<open>undefined\<close> (they are compared
  with \<open>===\<close> and tested for truthiness), \<open>lambda\<close> takes what \<open>assigned\<close>
  returns, and the others are tested for truthiness or used as strings.
  The fields for \<open>identifier\<close> and \<open>qualified\<close> are \<open>identifier_t\<close> and
  \<open>qualified_t\<close>, since both words are reserved.
\<close>

record parser =
  findIdentifiers :: "FindKind \<Rightarrow> Token list \<Rightarrow> Token option \<Rightarrow> Token list"
  inLambda :: "Token \<Rightarrow> Token option"
  amended :: "Token \<Rightarrow> bool"
  parse :: "string \<Rightarrow> Token list"
  identifier_t :: "Token \<Rightarrow> string"
  tokenId :: "Token \<Rightarrow> string"
  assigned :: "Token \<Rightarrow> Token option"
  lambda :: "Token option \<Rightarrow> bool"
  assignable :: "Token \<Rightarrow> bool"
  qualified_t :: "Token \<Rightarrow> bool"

section \<open>JavaScript string helpers\<close>

text \<open>
  \<open>s.split(/\./g)\<close>: the pieces of \<open>s\<close> between its dots; the empty string gives
  one empty piece. With the limit 3 only the first three pieces are kept and the rest
  of the string is dropped.
\<close>

fun splitDot :: "string \<Rightarrow> string list" where
  "splitDot [] = [[]]"
| "splitDot (c # cs) =
     (if c = CHR ''.'' then [] # splitDot cs
      else (case splitDot cs of [] \<Rightarrow> [[c]] | p # ps \<Rightarrow> (c # p) # ps))"

definition split3 :: "string \<Rightarrow> string list" where
  "split3 s = take 3 (splitDot s)"

text \<open>\<open>s.startsWith(".")\<close>\<close>

fun startsWithDot :: "string \<Rightarrow> bool" where
  "startsWithDot [] = False"
| "startsWithDot (c # cs) = (c = CHR ''.'')"

text \<open>\<open>x || 1\<close> on an optional number: \<open>undefined\<close> and \<open>0\<close> are falsy.\<close>

fun orOne :: "int option \<Rightarrow> int" where
  "orOne None = 1"
| "orOne (Some v) = (if v = 0 then 1 else v)"

section \<open>The server's helper functions\<close>

definition rangeFromToken :: "Token \<Rightarrow> Range" where
  "rangeFromToken token =
     Range_create
       (orOne (startLine token) - 1)
       (orOne (startColumn token) - 1)
       (orOne (endLine token) - 1)
       (orOne (endColumn token))"

text \<open>
  \<open>createTextEdit\<close>: the destructuring \<open>[_dot, namespace, image]\<close> of the split
  binds \<open>image\<close> only when there are three pieces, and \<open>if (image)\<close> holds when
  that piece is a non-empty string.
\<close>

definition createTextEdit :: "parser \<Rightarrow> Token \<Rightarrow> string \<Rightarrow> TextEdit" where
  "createTextEdit P token newName =
     \<lparr>edit_range = rangeFromToken token,
      newText =
        (if \<not> startsWithDot newName \<and> qualified_t P token then
           (case split3 (image_t token) of
              [dot, ns, img] \<Rightarrow>
                (if img \<noteq> [] then ''.'' @ ns @ ''.'' @ newName else newName)
            | _ \<Rightarrow> newName)
         else newName)\<rparr>"

text \<open>
  \<open>positionToToken\<close>: \<open>Array.prototype.find\<close> returns the first element that
  satisfies the test, or \<open>undefined\<close>.
\<close>

definition positionToToken :: "Token list \<Rightarrow> Position \<Rightarrow> Token option" where
  "positionToToken tokens position =
     List.find
       (\<lambda>token.
          let r = rangeFromToken token in
            line (range_start r) \<le> line position \<and>
            line (range_end r) \<ge> line position \<and>
            character (range_start r) \<le> character position \<and>
            character (range_end r) \<ge> character position)
       tokens"

text \<open>
  \<open>relative\<close>: \<open>target === namespace\<close> compares a string with a string or
  \<open>undefined\<close>; \<open>token.namespace === namespace\<close> compares two such values.
\<close>

definition relative :: "parser \<Rightarrow> Token \<Rightarrow> string option \<Rightarrow> string" where
  "relative P token ns =
     (case
        (if qualified_t P token then
           (case split3 (image_t token) of
              [dot, target, img] \<Rightarrow> (if img \<noteq> [] \<and> Some target = ns then Some img else None)
            | _ \<Rightarrow> None)
         else None)
      of
        Some img \<Rightarrow> img
      | None \<Rightarrow> (if namespace token = ns then image_t token else identifier_t P token))"

text \<open>\<open>source?.namespace\<close>\<close>

fun namespaceOf :: "Token option \<Rightarrow> string option" where
  "namespaceOf None = None"
| "namespaceOf (Some source) = namespace source"

definition createCompletionItem :: "parser \<Rightarrow> Token \<Rightarrow> Token option \<Rightarrow> CompletionItem" where
  "createCompletionItem P token source =
     \<lparr>label = image_t token,
      labelDetail = '' '' @ identifier_t P token,
      insertText = relative P token (namespaceOf source),
      kind = (if lambda P (assigned P token) then Function else Variable)\<rparr>"

text \<open>
  \<open>String.prototype.trim\<close>, on the white space a byte string can hold: space, tab,
  line feed, vertical tab, form feed and carriage return.
\<close>

definition isSpace :: "char \<Rightarrow> bool" where
  "isSpace c = (c \<in> set [CHR '' '', CHR 0x09, CHR 0x0A, CHR 0x0B, CHR 0x0C, CHR 0x0D])"

definition trim :: "string \<Rightarrow> string" where
  "trim s = rev (dropWhile isSpace (rev (dropWhile isSpace s)))"

text \<open>
  \<open>createSymbol\<close> calls itself on every child, and nothing in the server bounds the
  nesting: the recursion is given fuel, and \<open>None\<close> is the call that does not return.
  \<open>inLambda(child) === assigned(token)\<close> compares two values that are each a token
  or \<open>undefined\<close>.
\<close>

fun createSymbol :: "nat \<Rightarrow> parser \<Rightarrow> Token \<Rightarrow> Token list \<Rightarrow> DocumentSymbol option" where
  "createSymbol 0 P token tokens = None"
| "createSymbol (Suc fuel) P token tokens =
     (case those
        (map (\<lambda>child. createSymbol fuel P child tokens)
           (filter
              (\<lambda>child. assigned P child \<noteq> None \<and> assignable P child \<and>
                 inLambda P child = assigned P token)
              tokens))
      of
        None \<Rightarrow> None
      | Some cs \<Rightarrow>
          Some (DocumentSymbol
            (trim (identifier_t P token))
            (if amended P token then Some ''Amend'' else None)
            (if lambda P (assigned P token) then SymbolObject else SymbolVariable)
            (rangeFromToken token)
            (rangeFromToken token)
            (Some cs)))"

text \<open>
  A number in a template string is written in decimal: \<open>numberToString\<close> gives the
  digits of a natural number, the most significant first.
\<close>

definition digit :: "nat \<Rightarrow> char" where
  "digit d = ''0123456789'' ! d"

function numberToString :: "nat \<Rightarrow> string" where
  "numberToString n =
     (if n div 10 = 0 then [digit n]
      else numberToString (n div 10) @ [digit (n mod 10)])"
  by pat_completeness auto
termination
  by (relation "measure id") auto

text \<open>\<open>xs.join(" ")\<close>\<close>

fun joinSpace :: "string list \<Rightarrow> string" where
  "joinSpace [] = []"
| "joinSpace [x] = x"
| "joinSpace (x # y # ys) = x @ '' '' @ joinSpace (y # ys)"

text \<open>
  \<open>createDebugSymbol\<close>: the detail is one template string of seven parts separated
  by single spaces. A namespace is shown when it is a non-empty string, an order when
  it is a non-zero number, an error when it is not \<open>undefined\<close>, and a token or an
  array whenever it is there.
\<close>

definition createDebugSymbol :: "parser \<Rightarrow> Token \<Rightarrow> DocumentSymbol" where
  "createDebugSymbol P token =
     DocumentSymbol
       (tokenId P token)
       (Some
         (tokenType token @ '' '' @
          (case namespace token of
             None \<Rightarrow> []
           | Some ns \<Rightarrow> (if ns \<noteq> [] then ''('' @ ns @ '')'' else [])) @ '' '' @
          (case error token of None \<Rightarrow> [] | Some e \<Rightarrow> ''E='' @ numberToString e) @ '' '' @
          (case order token of
             None \<Rightarrow> []
           | Some n \<Rightarrow> (if n \<noteq> 0 then ''O='' @ numberToString n else [])) @ '' '' @
          (case tangled token of None \<Rightarrow> [] | Some t \<Rightarrow> ''T='' @ tokenId P t) @ '' '' @
          (case scope token of None \<Rightarrow> [] | Some t \<Rightarrow> ''S='' @ tokenId P t) @ '' '' @
          (case assignment token of
             None \<Rightarrow> []
           | Some ts \<Rightarrow> ''A='' @ joinSpace (map (tokenId P) ts))))
       SymbolVariable
       (rangeFromToken token)
       (rangeFromToken token)
       None"

section \<open>The server\<close>

text \<open>
  The state of a \<open>QLangServer\<close> that its request handlers read: the settings and the
  open documents, a dictionary from a document's URI to its text.
\<close>

record Settings =
  debug :: bool
  linting :: bool

record QLangServer =
  settings :: Settings
  documents :: "string \<rightharpoonup> string"

text \<open>The private method \<open>parse\<close> of the class.\<close>

definition QLangServer_parse :: "parser \<Rightarrow> QLangServer \<Rightarrow> string \<Rightarrow> Token list" where
  "QLangServer_parse P srv uri =
     (case documents srv uri of
        None \<Rightarrow> []
      | Some text \<Rightarrow> parse P text)"

definition onDocumentSymbol ::
  "nat \<Rightarrow> parser \<Rightarrow> QLangServer \<Rightarrow> string \<Rightarrow> DocumentSymbol list option" where
  "onDocumentSymbol fuel P srv uri =
     (let tokens = QLangServer_parse P srv uri in
        if debug (settings srv) then Some (map (\<lambda>token. createDebugSymbol P token) tokens)
        else
          those
            (map (\<lambda>token. createSymbol fuel P token tokens)
               (filter
                  (\<lambda>token. assignable P token \<and> assigned P token \<noteq> None \<and>
                     inLambda P token = None)
                  tokens)))"

text \<open>
  \<open>onRenameRequest\<close> returns \<open>null\<close> (\<open>None\<close>) or a workspace edit whose
  \<open>changes\<close> dictionary has the one key \<open>textDocument.uri\<close>.
\<close>

definition onRenameRequest ::
  "parser \<Rightarrow> QLangServer \<Rightarrow> string \<Rightarrow> Position \<Rightarrow> string \<Rightarrow> WorkspaceEdit option" where
  "onRenameRequest P srv uri position newName =
     (let tokens = QLangServer_parse P srv uri;
          source = positionToToken tokens position;
          edits = map (\<lambda>token. createTextEdit P token newName)
                    (findIdentifiers P Rename tokens source)
      in if length edits = 0 then None
         else Some \<lparr>changes = [uri \<mapsto> edits]\<rparr>)"

definition onCompletion ::
  "parser \<Rightarrow> QLangServer \<Rightarrow> string \<Rightarrow> Position \<Rightarrow> CompletionItem list" where
  "onCompletion P srv uri position =
     (let tokens = QLangServer_parse P srv uri;
          source = positionToToken tokens position
      in map (\<lambda>token. createCompletionItem P token source)
           (findIdentifiers P Completion tokens source))"

text \<open>The test that \<open>positionToToken\<close> applies to each token.\<close>

abbreviation covers :: "Token \<Rightarrow> Position \<Rightarrow> bool" where
  "covers t p \<equiv>
     line (range_start (rangeFromToken t)) \<le> line p \<and>
     line p \<le> line (range_end (rangeFromToken t)) \<and>
     character (range_start (rangeFromToken t)) \<le> character p \<and>
     character p \<le> character (range_end (rangeFromToken t))"

section \<open>The identifier resolver, from its specification\<close>

text \<open>
  The source of \<open>findIdentifiers\<close> is in the parser module and is missing here, so
  the resolver is modelled from section 4.3 of the specification. Of the predicates
  the model uses, "qualified" is the specification's "image begins with a
  namespace-dot" and "inside a lambda" is its "scope is set"; \<open>assignable\<close> and
  \<open>assigned\<close> are marks of the annotator and are read from the parser module \<open>P\<close>.
\<close>

text \<open>
  Modelled from the spec: the matching test of \<open>findIdentifiers\<close> (missing), "whose
  image/namespace match".
\<close>

definition matches :: "Token \<Rightarrow> Token \<Rightarrow> bool" where
  "matches source t = (image_t t = image_t source \<and> namespace t = namespace source)"

text \<open>
  Modelled from the spec: the global or namespace-level assignments that
  \<open>findIdentifiers\<close> (missing) falls through to. An assigned token is one when it
  has no scope, or is qualified ("a qualified identifier always resolves directly
  against its namespace, ignoring current scope").
\<close>

definition globalAssignment :: "parser \<Rightarrow> Token \<Rightarrow> bool" where
  "globalAssignment P t =
     (assigned P t \<noteq> None \<and> (scope t = None \<or> startsWithDot (image_t t)))"

text \<open>
  Modelled from the spec: the first step of \<open>findIdentifiers\<close> (missing), "if
  source.scope is set, the engine first looks for a matching assigned token whose scope
  equals source.scope and whose image/namespace match". A qualified source ignores
  its scope and has no local binding.
\<close>

definition localBinding :: "parser \<Rightarrow> Token list \<Rightarrow> Token \<Rightarrow> bool" where
  "localBinding P tokens source =
     (scope source \<noteq> None \<and> \<not> startsWithDot (image_t source) \<and>
      list_ex (\<lambda>t. assigned P t \<noteq> None \<and> scope t = scope source \<and> matches source t) tokens)"

text \<open>
  Modelled from the spec: the second step of \<open>findIdentifiers\<close> (missing), the
  fall-through "directly to the global/namespace level". A qualified source always
  resolves there; an unqualified one when a global assignment matches it.
\<close>

definition globalBinding :: "parser \<Rightarrow> Token list \<Rightarrow> Token \<Rightarrow> bool" where
  "globalBinding P tokens source =
     (startsWithDot (image_t source) \<or>
      list_ex (\<lambda>t. globalAssignment P t \<and> matches source t) tokens)"

text \<open>
  Modelled from the spec: the binding that \<open>findIdentifiers\<close> (missing) resolves a
  token to: local to a lambda (named by its scope), global, or none ("if source is
  unqualified and has no local binding and no global binding in its namespace, it is
  unresolved").
\<close>

datatype Binding =
    Local "Token option" string "string option"
  | Global string "string option"
  | Unresolved

definition resolve :: "parser \<Rightarrow> Token list \<Rightarrow> Token \<Rightarrow> Binding" where
  "resolve P tokens source =
     (if localBinding P tokens source
      then Local (scope source) (image_t source) (namespace source)
      else if globalBinding P tokens source
      then Global (image_t source) (namespace source)
      else Unresolved)"

text \<open>
  Modelled from the spec: \<open>findIdentifiers(kind, tokens, source)\<close> of the parser module
  (missing). An \<open>undefined\<close> source and a source that is not assignable give the
  empty result. \<open>Definition\<close>: the tokens that are assigned and assignable and resolve
  to the binding of the source. \<open>Reference\<close> and \<open>Rename\<close>: every assignable token,
  assigned or not, that resolves to the binding of the source. An unresolved source
  has no candidates. \<open>Completion\<close>: the assignments visible from the source, those of
  its enclosing lambda and the global ones, whatever their names.
\<close>

fun findIdentifiers_spec ::
  "parser \<Rightarrow> FindKind \<Rightarrow> Token list \<Rightarrow> Token option \<Rightarrow> Token list" where
  "findIdentifiers_spec P k tokens None = []"
| "findIdentifiers_spec P Definition tokens (Some source) =
     (if \<not> assignable P source \<or> resolve P tokens source = Unresolved then []
      else filter
             (\<lambda>t. assigned P t \<noteq> None \<and> assignable P t \<and>
                resolve P tokens t = resolve P tokens source)
             tokens)"
| "findIdentifiers_spec P Completion tokens (Some source) =
     (if \<not> assignable P source then []
      else filter
             (\<lambda>t. assigned P t \<noteq> None \<and> assignable P t \<and>
                (globalAssignment P t \<or> (scope source \<noteq> None \<and> scope t = scope source)))
             tokens)"
| "findIdentifiers_spec P k tokens (Some source) =
     (if \<not> assignable P source \<or> resolve P tokens source = Unresolved then []
      else filter
             (\<lambda>t. assignable P t \<and> resolve P tokens t = resolve P tokens source)
             tokens)"

section \<open>A sample document\<close>

text \<open>
  A small annotated document on which the theorems below are evaluated: the one-line
  text \<open>f:{x:1;x+y};y:2\<close>, its fifteen tokens, and a parser module that returns
  them. In this sample the annotator stores the first token of an assigned value in
  \<open>assignment\<close>, a name is an \<open>Identifier\<close>, and \<open>findIdentifiers\<close> is the
  resolver modelled above.
\<close>

definition tok :: "string \<Rightarrow> string \<Rightarrow> int \<Rightarrow> Token option \<Rightarrow> Token list option \<Rightarrow> Token" where
  "tok img ty col sc asg =
     Token img ty (Some 1) (Some col) (Some 1) (Some (col + int (length img) - 1))
       None None None None sc asg"

definition lcurly :: Token where
  "lcurly = tok ''{'' ''LCurly'' 3 None None"

definition one :: Token where
  "one = tok ''1'' ''NumberLiteral'' 6 (Some lcurly) None"

definition two :: Token where
  "two = tok ''2'' ''NumberLiteral'' 15 None None"

definition sampleTokens :: "Token list" where
  "sampleTokens =
     [tok ''f'' ''Identifier'' 1 None (Some [lcurly]),
      tok '':'' ''Colon'' 2 None None,
      lcurly,
      tok ''x'' ''Identifier'' 4 (Some lcurly) (Some [one]),
      tok '':'' ''Colon'' 5 (Some lcurly) None,
      one,
      tok '';'' ''SemiColon'' 7 (Some lcurly) None,
      tok ''x'' ''Identifier'' 8 (Some lcurly) None,
      tok ''+'' ''Operator'' 9 (Some lcurly) None,
      tok ''y'' ''Identifier'' 10 (Some lcurly) None,
      tok ''}'' ''RCurly'' 11 None None,
      tok '';'' ''SemiColon'' 12 None None,
      tok ''y'' ''Identifier'' 13 None (Some [two]),
      tok '':'' ''Colon'' 14 None None,
      two]"

definition samplePredicates :: parser where
  "samplePredicates =
     \<lparr>findIdentifiers = (\<lambda>k tokens source. []),
      inLambda = scope,
      amended = (\<lambda>t. False),
      parse = (\<lambda>text. if text = ''f:{x:1;x+y};y:2'' then sampleTokens else []),
      identifier_t = image_t,
      tokenId = image_t,
      assigned = (\<lambda>t. case assignment t of Some (v # vs) \<Rightarrow> Some v | _ \<Rightarrow> None),
      lambda = (\<lambda>v. case v of Some t \<Rightarrow> tokenType t = ''LCurly'' | None \<Rightarrow> False),
      assignable = (\<lambda>t. tokenType t = ''Identifier''),
      qualified_t = (\<lambda>t. startsWithDot (image_t t))\<rparr>"

definition sampleParser :: parser where
  "sampleParser = samplePredicates\<lparr>findIdentifiers := findIdentifiers_spec samplePredicates\<rparr>"

definition sampleServer :: QLangServer where
  "sampleServer =
     \<lparr>settings = \<lparr>debug = False, linting = False\<rparr>,
      documents = [''file:///a.q'' \<mapsto> ''f:{x:1;x+y};y:2'']\<rparr>"

text \<open>A qualified name, \<open>.ns.f\<close>.\<close>

definition qualifiedToken :: Token where
  "qualifiedToken = tok ''.ns.f'' ''Identifier'' 1 None None"

text \<open>
  A name with two levels below its namespace, \<open>.a.b.c\<close>, and a cursor token whose
  namespace is \<open>a\<close>.
\<close>

definition nestedToken :: Token where
  "nestedToken = tok ''.a.b.c'' ''Identifier'' 1 None (Some [two])"

definition aSource :: Token where
  "aSource =
     Token ''x'' ''Identifier'' (Some 2) (Some 1) (Some 2) (Some 1) (Some ''a'')
       None None None None None"

text \<open>A rank for the sample tokens that decreases from \<open>f\<close> to the names bound in its body.\<close>

definition sampleRank :: "Token \<Rightarrow> nat" where
  "sampleRank t = (if image_t t = ''f'' then 1 else 0)"

section \<open>Facts about the sample document\<close>

lemmas sample_defs = sampleTokens_def tok_def lcurly_def one_def two_def
  samplePredicates_def sampleParser_def

lemma sample_parse:
  "QLangServer_parse sampleParser sampleServer ''file:///a.q'' = sampleTokens"
  by (simp add: QLangServer_parse_def sampleServer_def sampleParser_def samplePredicates_def)

lemma sample_position:
  "positionToToken sampleTokens \<lparr>line = 0, character = 8\<rparr> = Some (sampleTokens ! 7)"
  by (simp add: positionToToken_def sample_defs rangeFromToken_def Range_create_def)

lemma sample_rename:
  "findIdentifiers sampleParser Rename sampleTokens (Some (sampleTokens ! 7)) =
     [sampleTokens ! 3, sampleTokens ! 7]"
  by (simp add: sampleParser_def samplePredicates_def resolve_def localBinding_def
      globalBinding_def globalAssignment_def matches_def sampleTokens_def tok_def lcurly_def
      one_def two_def)

lemma sample_local_x: "localBinding samplePredicates sampleTokens (sampleTokens ! 7)"
  by (simp add: localBinding_def matches_def sample_defs)

lemma sample_local_y: "\<not> localBinding samplePredicates sampleTokens (sampleTokens ! 9)"
  by (simp add: localBinding_def matches_def sample_defs)

section \<open>Splitting at dots\<close>

lemma splitDot_not_Nil: "splitDot s \<noteq> []"
  by (induction s) (auto split: list.splits)

lemma splitDot_no_dot: "CHR ''.'' \<notin> set a \<Longrightarrow> splitDot a = [a]"
  by (induction a) auto

lemma splitDot_append_dot:
  "CHR ''.'' \<notin> set a \<Longrightarrow> splitDot (a @ CHR ''.'' # s) = a # splitDot s"
  by (induction a) auto

lemma splitDot_piece:
  "CHR ''.'' \<notin> set a \<Longrightarrow> rest = [] \<or> hd rest = CHR ''.'' \<Longrightarrow>
   \<exists>ps. splitDot (a @ rest) = a # ps"
proof (cases rest)
  case Nil
  assume "CHR ''.'' \<notin> set a"
  with Nil show ?thesis by (simp add: splitDot_no_dot)
next
  case (Cons c r)
  assume a: "CHR ''.'' \<notin> set a" and "rest = [] \<or> hd rest = CHR ''.''"
  with Cons have "c = CHR ''.''" by simp
  with a Cons show ?thesis by (simp add: splitDot_append_dot)
qed

lemma split3_form:
  assumes "CHR ''.'' \<notin> set ns" and "CHR ''.'' \<notin> set name"
    and "rest = [] \<or> hd rest = CHR ''.''"
  shows "split3 (''.'' @ ns @ ''.'' @ name @ rest) = [[], ns, name]"
proof -
  obtain ps where ps: "splitDot (name @ rest) = name # ps"
    using splitDot_piece [OF assms(2) assms(3)] by blast
  have "splitDot (''.'' @ ns @ ''.'' @ name @ rest) = [] # ns # name # ps"
    using splitDot_append_dot [OF assms(1), of "name @ rest"] ps by simp
  then show ?thesis by (simp add: split3_def)
qed

lemma splitDot_Cons:
  "splitDot s = p # ps \<Longrightarrow>
   CHR ''.'' \<notin> set p \<and> ((ps = [] \<and> s = p) \<or> (\<exists>s'. s = p @ CHR ''.'' # s' \<and> splitDot s' = ps))"
proof (induction s arbitrary: p ps)
  case Nil
  then show ?case by simp
next
  case (Cons c cs)
  show ?case
  proof (cases "c = CHR ''.''")
    case True
    with Cons.prems show ?thesis by auto
  next
    case False
    obtain q qs where q: "splitDot cs = q # qs"
      using splitDot_not_Nil [of cs] by (cases "splitDot cs") auto
    with False Cons.prems have p: "p = c # q" "ps = qs" by auto
    from Cons.IH [OF q] False p show ?thesis by auto
  qed
qed

lemma take3_eq:
  assumes "take 3 xs = [a, b, c]"
  shows "\<exists>more. xs = a # b # c # more"
proof -
  have "take 3 xs @ drop 3 xs = xs" by (rule append_take_drop_id)
  with assms have "[a, b, c] @ drop 3 xs = xs" by (simp only:)
  then have "xs = a # b # c # drop 3 xs" by simp
  then show ?thesis ..
qed

lemma split3_three:
  assumes "split3 s = [a, b, c]" and "c \<noteq> []"
  shows "\<exists>rest. s = a @ ''.'' @ b @ ''.'' @ c @ rest \<and> CHR ''.'' \<notin> set a \<and>
           CHR ''.'' \<notin> set b \<and> CHR ''.'' \<notin> set c \<and> (rest = [] \<or> hd rest = CHR ''.'')"
proof -
  from assms(1) obtain more where sp: "splitDot s = a # b # c # more"
    unfolding split3_def by (rule exE [OF take3_eq])
  from splitDot_Cons [OF sp] obtain s1 where
    a: "CHR ''.'' \<notin> set a" and s1: "s = a @ CHR ''.'' # s1" "splitDot s1 = b # c # more"
    by auto
  from splitDot_Cons [OF s1(2)] obtain s2 where
    b: "CHR ''.'' \<notin> set b" and s2: "s1 = b @ CHR ''.'' # s2" "splitDot s2 = c # more"
    by auto
  from splitDot_Cons [OF s2(2)] have
    c: "CHR ''.'' \<notin> set c" and
    s3: "(more = [] \<and> s2 = c) \<or> (\<exists>s'. s2 = c @ CHR ''.'' # s' \<and> splitDot s' = more)"
    by auto
  from s3 obtain rest where "s2 = c @ rest" "rest = [] \<or> hd rest = CHR ''.''"
    by auto
  with a b c s1 s2 show ?thesis by auto
qed

lemma splitDot_first_piece:
  assumes "name \<noteq> []" and "hd name \<noteq> CHR ''.''"
  shows "\<exists>p ps. splitDot name = p # ps \<and> p \<noteq> []"
proof -
  from assms obtain c cs where n: "name = c # cs" "c \<noteq> CHR ''.''"
    by (cases name) auto
  obtain q qs where "splitDot cs = q # qs"
    using splitDot_not_Nil [of cs] by (cases "splitDot cs") auto
  with n have "splitDot name = (c # q) # qs" by simp
  then show ?thesis by blast
qed

lemma split3_remainder:
  assumes "CHR ''.'' \<notin> set ns" and "name \<noteq> []" and "hd name \<noteq> CHR ''.''"
  shows "\<exists>p. split3 (''.'' @ ns @ ''.'' @ name) = [[], ns, p] \<and> p \<noteq> []"
proof -
  from splitDot_first_piece [OF assms(2,3)] obtain p ps where
    p: "splitDot name = p # ps" "p \<noteq> []"
    by blast
  have "splitDot (''.'' @ ns @ ''.'' @ name) = [] # ns # p # ps"
    using splitDot_append_dot [OF assms(1), of name] p(1) by simp
  then have "split3 (''.'' @ ns @ ''.'' @ name) = [[], ns, p]"
    by (simp add: split3_def)
  with p(2) show ?thesis by blast
qed

lemma startsWithDot_first:
  "startsWithDot (a @ CHR ''.'' # s) \<Longrightarrow> CHR ''.'' \<notin> set a \<Longrightarrow> a = []"
  by (cases a) auto

section \<open>Position mapping\<close>

text \<open>
  C3. For every token, the range handed to the editor is the 0-based conversion of the
  token's 1-based inclusive range: its start is (startLine - 1, startColumn - 1) and
  its end is (endLine - 1, endColumn), where every position field that is missing
  (\<open>undefined\<close>) or otherwise falsy (\<open>0\<close>) is first replaced by 1.
\<close>

theorem rangeFromToken_zero_based:
  "rangeFromToken t =
     \<lparr>range_start =
        \<lparr>line = (case startLine t of None \<Rightarrow> 1 | Some v \<Rightarrow> if v = 0 then 1 else v) - 1,
         character = (case startColumn t of None \<Rightarrow> 1 | Some v \<Rightarrow> if v = 0 then 1 else v) - 1\<rparr>,
      range_end =
        \<lparr>line = (case endLine t of None \<Rightarrow> 1 | Some v \<Rightarrow> if v = 0 then 1 else v) - 1,
         character = (case endColumn t of None \<Rightarrow> 1 | Some v \<Rightarrow> if v = 0 then 1 else v)\<rparr>\<rparr>"
  by (simp add: rangeFromToken_def Range_create_def split: option.splits)

theorem rangeFromToken_zero_based_witness:
  "rangeFromToken qualifiedToken = Range_create 0 0 0 5 \<and>
   rangeFromToken (Token ''x'' ''Identifier'' None (Some 0) None None None None None None None None)
     = Range_create 0 0 0 1"
  using rangeFromToken_zero_based [of qualifiedToken]
    rangeFromToken_zero_based [of "Token ''x'' ''Identifier'' None (Some 0) None None None None None None None None"]
  by (simp add: qualifiedToken_def tok_def Range_create_def)

text \<open>
  C9. For every token array and cursor position, \<open>positionToToken\<close> returns the
  first token, in sequence order, whose converted 0-based range has
  start.line \<le> position.line \<le> end.line and, independently of the lines,
  start.character \<le> position.character \<le> end.character. It returns \<open>undefined\<close>
  exactly when no token passes this test, and so always on the empty array.
\<close>

theorem positionToToken_first:
  "(positionToToken ts p = None \<longleftrightarrow> (\<forall>t\<in>set ts. \<not> covers t p)) \<and>
   (\<forall>t. positionToToken ts p = Some t \<longleftrightarrow>
      (\<exists>i<length ts. ts ! i = t \<and> covers t p \<and> (\<forall>j<i. \<not> covers (ts ! j) p))) \<and>
   positionToToken [] p = None"
  by (auto simp: positionToToken_def Let_def find_None_iff find_Some_iff)

theorem positionToToken_first_witness:
  "positionToToken sampleTokens \<lparr>line = 3, character = 8\<rparr> = None \<and>
   positionToToken sampleTokens \<lparr>line = 0, character = 2\<rparr> = Some (sampleTokens ! 1) \<and>
   positionToToken [] \<lparr>line = 0, character = 2\<rparr> = None"
proof -
  have 1: "positionToToken sampleTokens \<lparr>line = 3, character = 8\<rparr> = None"
    using positionToToken_first [of sampleTokens "\<lparr>line = 3, character = 8\<rparr>"]
    by (simp add: sample_defs rangeFromToken_def Range_create_def)
  have "\<exists>i<length sampleTokens. sampleTokens ! i = sampleTokens ! 1 \<and>
          covers (sampleTokens ! 1) \<lparr>line = 0, character = 2\<rparr> \<and>
          (\<forall>j<i. \<not> covers (sampleTokens ! j) \<lparr>line = 0, character = 2\<rparr>)"
    by (rule exI [of _ 1]) (simp add: sample_defs rangeFromToken_def Range_create_def)
  then have 2: "positionToToken sampleTokens \<lparr>line = 0, character = 2\<rparr> = Some (sampleTokens ! 1)"
    using positionToToken_first [of sampleTokens "\<lparr>line = 0, character = 2\<rparr>"]
    by blast
  have 3: "positionToToken [] \<lparr>line = 0, character = 2\<rparr> = None"
    using positionToToken_first [of "[]" "\<lparr>line = 0, character = 2\<rparr>"] by blast
  from 1 2 3 show ?thesis by simp
qed

section \<open>Rename edits\<close>

text \<open>
  C1. For every token \<open>t\<close> and replacement name \<open>n\<close>: if \<open>n\<close> does not start
  with a dot and \<open>t\<close> is qualified, its image being \<open>.ns.name\<close> with a non-empty
  name part, then the edit for \<open>t\<close> replaces the range of \<open>t\<close> by
  \<open>.ns.n\<close>, which keeps the namespace prefix; if \<open>n\<close> starts with a dot, the edit
  replaces the range by \<open>n\<close> as it is. Here \<open>ns\<close> is the piece of the image
  between its first two dots and \<open>name\<close> is all that follows the second dot; the
  name part is non-empty when it has a first character and that is not again a dot.
\<close>

theorem createTextEdit_rename:
  "(\<not> startsWithDot n \<and> qualified_t P t \<and>
      image_t t = ''.'' @ ns @ ''.'' @ name \<and>
      CHR ''.'' \<notin> set ns \<and> name \<noteq> [] \<and> hd name \<noteq> CHR ''.''
    \<longrightarrow> createTextEdit P t n =
          \<lparr>edit_range = rangeFromToken t, newText = ''.'' @ ns @ ''.'' @ n\<rparr>) \<and>
   (startsWithDot n
    \<longrightarrow> createTextEdit P t n = \<lparr>edit_range = rangeFromToken t, newText = n\<rparr>)"
proof (intro conjI impI)
  assume h: "\<not> startsWithDot n \<and> qualified_t P t \<and>
      image_t t = ''.'' @ ns @ ''.'' @ name \<and>
      CHR ''.'' \<notin> set ns \<and> name \<noteq> [] \<and> hd name \<noteq> CHR ''.''"
  then obtain p where "split3 (image_t t) = [[], ns, p]" "p \<noteq> []"
    using split3_remainder [of ns name] by auto
  with h show "createTextEdit P t n =
          \<lparr>edit_range = rangeFromToken t, newText = ''.'' @ ns @ ''.'' @ n\<rparr>"
    by (simp add: createTextEdit_def)
next
  assume "startsWithDot n"
  then show "createTextEdit P t n = \<lparr>edit_range = rangeFromToken t, newText = n\<rparr>"
    by (simp add: createTextEdit_def)
qed

theorem createTextEdit_rename_witness:
  "createTextEdit sampleParser qualifiedToken ''g'' =
     \<lparr>edit_range = Range_create 0 0 0 5, newText = ''.ns.g''\<rparr> \<and>
   createTextEdit sampleParser qualifiedToken ''.other.g'' =
     \<lparr>edit_range = Range_create 0 0 0 5, newText = ''.other.g''\<rparr> \<and>
   createTextEdit sampleParser nestedToken ''g'' =
     \<lparr>edit_range = Range_create 0 0 0 6, newText = ''.a.g''\<rparr>"
  using createTextEdit_rename [of "''g''" sampleParser qualifiedToken "''ns''" "''f''"]
    createTextEdit_rename [of "''.other.g''" sampleParser qualifiedToken]
    createTextEdit_rename [of "''g''" sampleParser nestedToken "''a''" "''b.c''"]
  by (simp add: qualifiedToken_def nestedToken_def tok_def sampleParser_def samplePredicates_def
      rangeFromToken_def)

text \<open>
  C4. A resolution miss is an empty collection and no exception: for a document the
  server does not know, \<open>QLangServer.parse\<close> returns the empty token array;
  \<open>onRenameRequest\<close> returns \<open>null\<close> exactly when
  \<open>findIdentifiers(Rename, tokens, source)\<close> returns no token, and otherwise a
  workspace edit whose changes have the document's URI as their only key, with one
  text edit for each returned token, in the same order. This holds for every parser
  module.
\<close>

theorem onRenameRequest_miss:
  "(documents srv uri = None \<longrightarrow> QLangServer_parse P srv uri = []) \<and>
   ((onRenameRequest P srv uri pos n = None) =
      (findIdentifiers P Rename (QLangServer_parse P srv uri)
         (positionToToken (QLangServer_parse P srv uri) pos) = [])) \<and>
   (findIdentifiers P Rename (QLangServer_parse P srv uri)
         (positionToToken (QLangServer_parse P srv uri) pos) \<noteq> []
    \<longrightarrow> (\<exists>w. onRenameRequest P srv uri pos n = Some w \<and>
           dom (changes w) = {uri} \<and>
           changes w uri =
             Some (map (\<lambda>t. createTextEdit P t n)
                     (findIdentifiers P Rename (QLangServer_parse P srv uri)
                        (positionToToken (QLangServer_parse P srv uri) pos)))))"
  by (simp add: onRenameRequest_def QLangServer_parse_def Let_def)

theorem onRenameRequest_miss_witness:
  "QLangServer_parse sampleParser sampleServer ''file:///b.q'' = [] \<and>
   (\<exists>w. onRenameRequest sampleParser sampleServer ''file:///a.q''
          \<lparr>line = 0, character = 8\<rparr> ''z'' = Some w \<and>
        changes w ''file:///a.q'' =
          Some [\<lparr>edit_range = Range_create 0 3 0 4, newText = ''z''\<rparr>,
                \<lparr>edit_range = Range_create 0 7 0 8, newText = ''z''\<rparr>]) \<and>
   onRenameRequest sampleParser sampleServer ''file:///a.q''
          \<lparr>line = 0, character = 6\<rparr> ''z'' = None"
proof -
  have 1: "QLangServer_parse sampleParser sampleServer ''file:///b.q'' = []"
    using onRenameRequest_miss [of sampleServer "''file:///b.q''" sampleParser]
    by (simp add: sampleServer_def)
  have e: "map (\<lambda>t. createTextEdit sampleParser t ''z'') [sampleTokens ! 3, sampleTokens ! 7] =
      [\<lparr>edit_range = Range_create 0 3 0 4, newText = ''z''\<rparr>,
       \<lparr>edit_range = Range_create 0 7 0 8, newText = ''z''\<rparr>]"
    by (simp add: createTextEdit_def rangeFromToken_def sample_defs)
  have 2: "\<exists>w. onRenameRequest sampleParser sampleServer ''file:///a.q''
          \<lparr>line = 0, character = 8\<rparr> ''z'' = Some w \<and>
        changes w ''file:///a.q'' =
          Some [\<lparr>edit_range = Range_create 0 3 0 4, newText = ''z''\<rparr>,
                \<lparr>edit_range = Range_create 0 7 0 8, newText = ''z''\<rparr>]"
    using onRenameRequest_miss [of sampleServer "''file:///a.q''" sampleParser
        "\<lparr>line = 0, character = 8\<rparr>" "''z''"]
    by (simp only: sample_parse sample_position sample_rename e) blast
  have p6: "positionToToken sampleTokens \<lparr>line = 0, character = 6\<rparr> = Some (sampleTokens ! 5)"
    by (simp add: positionToToken_def sample_defs rangeFromToken_def Range_create_def)
  have r6: "findIdentifiers sampleParser Rename sampleTokens (Some (sampleTokens ! 5)) = []"
    by (simp add: sample_defs)
  have 3: "onRenameRequest sampleParser sampleServer ''file:///a.q''
          \<lparr>line = 0, character = 6\<rparr> ''z'' = None"
    using onRenameRequest_miss [of sampleServer "''file:///a.q''" sampleParser
        "\<lparr>line = 0, character = 6\<rparr>" "''z''"]
    by (simp only: sample_parse p6 r6)
  from 1 2 3 show ?thesis by blast
qed

section \<open>Completion items\<close>

lemma relative_first:
  assumes "qualified_t P t" and "split3 (image_t t) = [a, target, name]" and "name \<noteq> []"
    and "ns = Some target"
  shows "relative P t ns = name"
  using assms by (simp add: relative_def)

lemma relative_otherwise:
  assumes "\<not> (qualified_t P t \<and> (\<exists>a target name. split3 (image_t t) = [a, target, name] \<and>
              name \<noteq> [] \<and> ns = Some target))"
  shows "relative P t ns = (if namespace t = ns then image_t t else identifier_t P t)"
proof (cases "qualified_t P t")
  case False
  then show ?thesis by (simp add: relative_def)
next
  case True
  with assms have n: "\<And>a target name. split3 (image_t t) = [a, target, name] \<Longrightarrow>
      name \<noteq> [] \<Longrightarrow> ns \<noteq> Some target"
    by blast
  have "(case split3 (image_t t) of
              [dot, target, img] \<Rightarrow> (if img \<noteq> [] \<and> Some target = ns then Some img else None)
            | _ \<Rightarrow> None) = None"
    using n by (auto split: list.splits)
  with True show ?thesis by (simp add: relative_def)
qed

text \<open>
  C7. For every token turned into a completion item, the kind of the item is
  \<open>Function\<close> exactly when \<open>lambda(assigned(token))\<close> holds, that is when the
  value assigned to the token is a function literal, and \<open>Variable\<close> otherwise.
\<close>

theorem createCompletionItem_kind:
  "(kind (createCompletionItem P t source) = Function) = lambda P (assigned P t) \<and>
   (kind (createCompletionItem P t source) = Variable) = (\<not> lambda P (assigned P t))"
  by (simp add: createCompletionItem_def)

theorem createCompletionItem_kind_witness:
  "kind (createCompletionItem sampleParser (sampleTokens ! 0) None) = Function \<and>
   kind (createCompletionItem sampleParser (sampleTokens ! 3) None) = Variable"
  using createCompletionItem_kind [of sampleParser "sampleTokens ! 0" None]
    createCompletionItem_kind [of sampleParser "sampleTokens ! 3" None]
  by (simp add: sample_defs)

text \<open>
  What \<open>relative\<close> computes, for a parser whose \<open>qualified\<close> holds only of images
  that begin with a dot: when the token is qualified, the third piece of its image is
  not empty and the second piece equals the namespace of the cursor token, that third
  piece alone, whatever follows it (\<open>rest\<close>); in every other case the image if the
  namespace field of the token equals that namespace, and \<open>identifier(token)\<close> if not.
\<close>

lemma createCompletionItem_insertText:
  assumes "qualified_t P t \<longrightarrow> startsWithDot (image_t t)"
  shows
  "(qualified_t P t \<and> image_t t = ''.'' @ target @ ''.'' @ name @ rest \<and>
      CHR ''.'' \<notin> set target \<and> CHR ''.'' \<notin> set name \<and> name \<noteq> [] \<and>
      (rest = [] \<or> hd rest = CHR ''.'') \<and> namespaceOf source = Some target
    \<longrightarrow> insertText (createCompletionItem P t source) = name) \<and>
   (\<not> (qualified_t P t \<and>
        (\<exists>target name rest. image_t t = ''.'' @ target @ ''.'' @ name @ rest \<and>
           CHR ''.'' \<notin> set target \<and> CHR ''.'' \<notin> set name \<and> name \<noteq> [] \<and>
           (rest = [] \<or> hd rest = CHR ''.'') \<and> namespaceOf source = Some target))
    \<longrightarrow> insertText (createCompletionItem P t source) =
          (if namespace t = namespaceOf source then image_t t else identifier_t P t))"
proof (intro conjI impI)
  assume h: "qualified_t P t \<and> image_t t = ''.'' @ target @ ''.'' @ name @ rest \<and>
      CHR ''.'' \<notin> set target \<and> CHR ''.'' \<notin> set name \<and> name \<noteq> [] \<and>
      (rest = [] \<or> hd rest = CHR ''.'') \<and> namespaceOf source = Some target"
  then have "split3 (image_t t) = [[], target, name]"
    using split3_form [of target name rest] by simp
  with h have "relative P t (namespaceOf source) = name"
    using relative_first [of P t "[]" target name "namespaceOf source"] by simp
  then show "insertText (createCompletionItem P t source) = name"
    by (simp add: createCompletionItem_def)
next
  assume h: "\<not> (qualified_t P t \<and>
        (\<exists>target name rest. image_t t = ''.'' @ target @ ''.'' @ name @ rest \<and>
           CHR ''.'' \<notin> set target \<and> CHR ''.'' \<notin> set name \<and> name \<noteq> [] \<and>
           (rest = [] \<or> hd rest = CHR ''.'') \<and> namespaceOf source = Some target))"
  have "\<not> (qualified_t P t \<and> (\<exists>a target name. split3 (image_t t) = [a, target, name] \<and>
              name \<noteq> [] \<and> namespaceOf source = Some target))"
  proof
    assume q: "qualified_t P t \<and> (\<exists>a target name. split3 (image_t t) = [a, target, name] \<and>
              name \<noteq> [] \<and> namespaceOf source = Some target)"
    then obtain a target name where sp: "split3 (image_t t) = [a, target, name]"
      and nm: "name \<noteq> []" and ns: "namespaceOf source = Some target"
      by blast
    from split3_three [OF sp nm] obtain rest where
      r: "image_t t = a @ ''.'' @ target @ ''.'' @ name @ rest" "CHR ''.'' \<notin> set a"
         "CHR ''.'' \<notin> set target" "CHR ''.'' \<notin> set name" "rest = [] \<or> hd rest = CHR ''.''"
      by blast
    from q assms have "startsWithDot (image_t t)" by simp
    with r(1,2) have "a = []"
      using startsWithDot_first [of a "target @ ''.'' @ name @ rest"] by simp
    with r nm ns q h show False by auto
  qed
  then have "relative P t (namespaceOf source) =
      (if namespace t = namespaceOf source then image_t t else identifier_t P t)"
    by (rule relative_otherwise)
  then show "insertText (createCompletionItem P t source) =
          (if namespace t = namespaceOf source then image_t t else identifier_t P t)"
    by (simp add: createCompletionItem_def)
qed

text \<open>
  C8. For every completion candidate \<open>t\<close> and the namespace \<open>ns\<close> of the cursor
  token, the inserted text is relative to \<open>ns\<close>: if \<open>t\<close> is qualified as
  \<open>.target.name\<close> with a non-empty name and \<open>target\<close> equals \<open>ns\<close>, the bare
  name is inserted; otherwise the full image of \<open>t\<close> if its namespace field equals
  \<open>ns\<close>, and \<open>identifier(t)\<close> if not. The code departs from this on a name with
  more than one level below the namespace: for the candidate \<open>.a.b.c\<close> and the
  cursor namespace \<open>a\<close>, the split with limit 3 drops \<open>.c\<close> and the inserted text
  is \<open>b\<close>. That is not the name of the candidate relative to \<open>a\<close>, which is
  \<open>b.c\<close>, nor its image, nor its identifier.
\<close>

theorem relative_drops_tail:
  "qualified_t sampleParser nestedToken \<and>
   image_t nestedToken = ''.a.b.c'' \<and>
   namespaceOf (Some aSource) = Some ''a'' \<and>
   insertText (createCompletionItem sampleParser nestedToken (Some aSource)) = ''b'' \<and>
   insertText (createCompletionItem sampleParser nestedToken (Some aSource)) \<noteq> ''b.c'' \<and>
   insertText (createCompletionItem sampleParser nestedToken (Some aSource)) \<noteq> image_t nestedToken \<and>
   insertText (createCompletionItem sampleParser nestedToken (Some aSource)) \<noteq>
     identifier_t sampleParser nestedToken"
  by (simp add: createCompletionItem_def relative_def split3_def nestedToken_def aSource_def
      tok_def sampleParser_def samplePredicates_def)

section \<open>Document symbols\<close>

lemma list_all2_eq_map:
  "list_all2 P xs ys \<Longrightarrow> (\<And>x y. P x y \<Longrightarrow> x = f y) \<Longrightarrow> xs = map f ys"
  by (induction rule: list_all2_induct) auto

lemma those_map_all:
  assumes "\<forall>x\<in>set xs. \<exists>y. f x = Some y \<and> Q y x"
  shows "\<exists>ys. those (map f xs) = Some ys \<and> list_all2 (\<lambda>y x. f x = Some y \<and> Q y x) ys xs"
  using assms
proof (induction xs)
  case Nil
  then show ?case by simp
next
  case (Cons x xs)
  then obtain ys where ys: "those (map f xs) = Some ys"
      "list_all2 (\<lambda>y x. f x = Some y \<and> Q y x) ys xs"
    by auto
  from Cons.prems obtain y where y: "f x = Some y" "Q y x" by auto
  from ys y have "those (map f (x # xs)) = Some (y # ys)" by simp
  moreover from ys y have "list_all2 (\<lambda>y x. f x = Some y \<and> Q y x) (y # ys) (x # xs)" by simp
  ultimately show ?case by blast
qed

lemma createSymbol_returns:
  assumes rank: "\<forall>c\<in>set tokens. \<forall>t\<in>set tokens.
      assigned P t \<noteq> None \<and> assignable P t \<and>
      assigned P c \<noteq> None \<and> assignable P c \<and> inLambda P c = assigned P t
      \<longrightarrow> rank c < (rank t :: nat)"
  shows "token \<in> set tokens \<Longrightarrow> assigned P token \<noteq> None \<Longrightarrow> assignable P token \<Longrightarrow>
         rank token < fuel \<Longrightarrow>
         \<exists>sym. createSymbol fuel P token tokens = Some sym \<and>
               symbol_name sym = trim (identifier_t P token) \<and>
               symbol_range sym = rangeFromToken token"
proof (induction fuel arbitrary: token)
  case 0
  then show ?case by simp
next
  case (Suc fuel)
  let ?cs = "filter (\<lambda>child. assigned P child \<noteq> None \<and> assignable P child \<and>
                 inLambda P child = assigned P token) tokens"
  have "\<forall>c\<in>set ?cs. \<exists>y. createSymbol fuel P c tokens = Some y \<and>
          (symbol_name y = trim (identifier_t P c) \<and> symbol_range y = rangeFromToken c)"
  proof
    fix c assume c: "c \<in> set ?cs"
    then have ct: "c \<in> set tokens" and ca: "assigned P c \<noteq> None" "assignable P c"
      and cl: "inLambda P c = assigned P token"
      by simp_all
    from rank ct Suc.prems(1,2,3) ca cl have "rank c < rank token" by blast
    with Suc.prems(4) have "rank c < fuel" by simp
    from Suc.IH [OF ct ca this]
    show "\<exists>y. createSymbol fuel P c tokens = Some y \<and>
          (symbol_name y = trim (identifier_t P c) \<and> symbol_range y = rangeFromToken c)" .
  qed
  from those_map_all [OF this] obtain ys where
    "those (map (\<lambda>child. createSymbol fuel P child tokens) ?cs) = Some ys"
    by blast
  then show ?case by simp
qed

text \<open>
  C10. With debug mode off, \<open>onDocumentSymbol\<close> produces its top-level symbols
  exactly for the tokens that are assignable, assigned and not inside a lambda, in
  the order of the token sequence: the symbol for such a token is
  \<open>createSymbol\<close> of it and carries its name and range. With debug mode on it
  produces exactly one debug symbol for each token of the parse, in the same order.
  \<open>createSymbol\<close> descends from a token to the assigned tokens whose enclosing
  lambda is the value assigned to it; that the handler returns is proved when this
  descent is well-founded on the parsed tokens (\<open>rank\<close> decreases along it) and the
  fuel exceeds every rank.
\<close>

theorem onDocumentSymbol_symbols:
  assumes "toks = QLangServer_parse P srv uri"
  shows
  "(\<not> debug (settings srv) \<and>
    (\<forall>c\<in>set toks. \<forall>t\<in>set toks.
       assigned P t \<noteq> None \<and> assignable P t \<and>
       assigned P c \<noteq> None \<and> assignable P c \<and> inLambda P c = assigned P t
       \<longrightarrow> rank c < (rank t :: nat)) \<and>
    (\<forall>t\<in>set toks. rank t < fuel)
    \<longrightarrow>
      (\<exists>syms. onDocumentSymbol fuel P srv uri = Some syms \<and>
         list_all2
           (\<lambda>sym t. createSymbol fuel P t toks = Some sym \<and>
              symbol_name sym = trim (identifier_t P t) \<and>
              symbol_range sym = rangeFromToken t)
           syms
           (filter (\<lambda>t. assignable P t \<and> assigned P t \<noteq> None \<and> inLambda P t = None) toks))) \<and>
   (debug (settings srv) \<longrightarrow>
      (\<exists>syms. onDocumentSymbol fuel P srv uri = Some syms \<and>
         list_all2
           (\<lambda>sym t. sym = createDebugSymbol P t \<and> symbol_range sym = rangeFromToken t)
           syms toks))"
proof (intro conjI impI)
  assume h: "\<not> debug (settings srv) \<and>
    (\<forall>c\<in>set toks. \<forall>t\<in>set toks.
       assigned P t \<noteq> None \<and> assignable P t \<and>
       assigned P c \<noteq> None \<and> assignable P c \<and> inLambda P c = assigned P t
       \<longrightarrow> rank c < (rank t :: nat)) \<and>
    (\<forall>t\<in>set toks. rank t < fuel)"
  then have d: "\<not> debug (settings srv)"
    and rank: "\<forall>c\<in>set toks. \<forall>t\<in>set toks.
       assigned P t \<noteq> None \<and> assignable P t \<and>
       assigned P c \<noteq> None \<and> assignable P c \<and> inLambda P c = assigned P t
       \<longrightarrow> rank c < (rank t :: nat)"
    and fuel: "\<forall>t\<in>set toks. rank t < fuel"
    by blast+
  let ?top = "filter (\<lambda>t. assignable P t \<and> assigned P t \<noteq> None \<and> inLambda P t = None) toks"
  have "\<forall>t\<in>set ?top. \<exists>y. createSymbol fuel P t toks = Some y \<and>
          (symbol_name y = trim (identifier_t P t) \<and> symbol_range y = rangeFromToken t)"
  proof
    fix t assume "t \<in> set ?top"
    then have t: "t \<in> set toks" "assigned P t \<noteq> None" "assignable P t" by simp_all
    with fuel have "rank t < fuel" by simp
    from createSymbol_returns [OF rank t this]
    show "\<exists>y. createSymbol fuel P t toks = Some y \<and>
          (symbol_name y = trim (identifier_t P t) \<and> symbol_range y = rangeFromToken t)" .
  qed
  from those_map_all [OF this] obtain ys where
    ys: "those (map (\<lambda>t. createSymbol fuel P t toks) ?top) = Some ys"
        "list_all2 (\<lambda>y t. createSymbol fuel P t toks = Some y \<and>
            (symbol_name y = trim (identifier_t P t) \<and> symbol_range y = rangeFromToken t)) ys ?top"
    by blast
  from ys(1) d assms have "onDocumentSymbol fuel P srv uri = Some ys"
    by (simp add: onDocumentSymbol_def Let_def)
  with ys(2) show "\<exists>syms. onDocumentSymbol fuel P srv uri = Some syms \<and>
         list_all2
           (\<lambda>sym t. createSymbol fuel P t toks = Some sym \<and>
              symbol_name sym = trim (identifier_t P t) \<and>
              symbol_range sym = rangeFromToken t)
           syms ?top"
    by blast
next
  assume d: "debug (settings srv)"
  then have "onDocumentSymbol fuel P srv uri = Some (map (createDebugSymbol P) toks)"
    using assms by (simp add: onDocumentSymbol_def Let_def)
  moreover have "list_all2
           (\<lambda>sym t. sym = createDebugSymbol P t \<and> symbol_range sym = rangeFromToken t)
           (map (createDebugSymbol P) toks) toks"
    by (simp add: list_all2_map1 list_all2_same createDebugSymbol_def)
  ultimately show "\<exists>syms. onDocumentSymbol fuel P srv uri = Some syms \<and>
         list_all2
           (\<lambda>sym t. sym = createDebugSymbol P t \<and> symbol_range sym = rangeFromToken t)
           syms toks"
    by blast
qed

theorem onDocumentSymbol_symbols_witness:
  "(\<exists>f x y. onDocumentSymbol 2 sampleParser sampleServer ''file:///a.q'' = Some [f, y] \<and>
      symbol_name f = ''f'' \<and> symbol_range f = Range_create 0 0 0 1 \<and>
      children f = Some [x] \<and> symbol_name x = ''x'' \<and>
      symbol_name y = ''y'' \<and> symbol_range y = Range_create 0 12 0 13) \<and>
   (\<exists>syms. onDocumentSymbol 0 sampleParser
       (sampleServer\<lparr>settings := \<lparr>debug = True, linting = False\<rparr>\<rparr>) ''file:///a.q'' = Some syms \<and>
       map symbol_name syms = map image_t sampleTokens)"
proof -
  have top: "filter (\<lambda>t. assignable sampleParser t \<and> assigned sampleParser t \<noteq> None \<and>
       inLambda sampleParser t = None) sampleTokens = [sampleTokens ! 0, sampleTokens ! 12]"
    by (simp add: sample_defs)
  have rank: "\<forall>c\<in>set sampleTokens. \<forall>t\<in>set sampleTokens.
       assigned sampleParser t \<noteq> None \<and> assignable sampleParser t \<and>
       assigned sampleParser c \<noteq> None \<and> assignable sampleParser c \<and>
       inLambda sampleParser c = assigned sampleParser t
       \<longrightarrow> sampleRank c < sampleRank t"
    by (simp add: sample_defs sampleRank_def)
  have fuel: "\<forall>t\<in>set sampleTokens. sampleRank t < 2"
    by (simp add: sampleRank_def)
  have d: "\<not> debug (settings sampleServer)"
    by (simp add: sampleServer_def)
  from onDocumentSymbol_symbols [OF sample_parse [symmetric], of sampleRank 2] d rank fuel
  obtain syms where
    s: "onDocumentSymbol 2 sampleParser sampleServer ''file:///a.q'' = Some syms"
       "list_all2
           (\<lambda>sym t. createSymbol 2 sampleParser t sampleTokens = Some sym \<and>
              symbol_name sym = trim (identifier_t sampleParser t) \<and>
              symbol_range sym = rangeFromToken t)
           syms [sampleTokens ! 0, sampleTokens ! 12]"
    unfolding top by blast
  from s(2) obtain f y where fy: "syms = [f, y]"
    "createSymbol 2 sampleParser (sampleTokens ! 0) sampleTokens = Some f"
    "symbol_name f = trim (identifier_t sampleParser (sampleTokens ! 0))"
    "symbol_range f = rangeFromToken (sampleTokens ! 0)"
    "symbol_name y = trim (identifier_t sampleParser (sampleTokens ! 12))"
    "symbol_range y = rangeFromToken (sampleTokens ! 12)"
    by (auto simp: list_all2_Cons2)
  have cf: "createSymbol 2 sampleParser (sampleTokens ! 0) sampleTokens =
      Some (DocumentSymbol ''f'' None SymbolObject (Range_create 0 0 0 1) (Range_create 0 0 0 1)
        (Some [DocumentSymbol ''x'' None SymbolVariable (Range_create 0 3 0 4)
           (Range_create 0 3 0 4) (Some [])]))"
    by (simp add: numeral_2_eq_2 sample_defs rangeFromToken_def trim_def isSpace_def)
  have 1: "\<exists>f x y. onDocumentSymbol 2 sampleParser sampleServer ''file:///a.q'' = Some [f, y] \<and>
      symbol_name f = ''f'' \<and> symbol_range f = Range_create 0 0 0 1 \<and>
      children f = Some [x] \<and> symbol_name x = ''x'' \<and>
      symbol_name y = ''y'' \<and> symbol_range y = Range_create 0 12 0 13"
    using s(1) fy cf
    by (simp add: sample_defs rangeFromToken_def trim_def isSpace_def)
  have dd: "debug (settings (sampleServer\<lparr>settings := \<lparr>debug = True, linting = False\<rparr>\<rparr>))"
    by simp
  have pp: "sampleTokens = QLangServer_parse sampleParser
      (sampleServer\<lparr>settings := \<lparr>debug = True, linting = False\<rparr>\<rparr>) ''file:///a.q''"
    by (simp add: QLangServer_parse_def sampleServer_def sampleParser_def samplePredicates_def)
  from onDocumentSymbol_symbols [OF pp, of undefined 0] dd
  obtain ds where ds: "onDocumentSymbol 0 sampleParser
       (sampleServer\<lparr>settings := \<lparr>debug = True, linting = False\<rparr>\<rparr>) ''file:///a.q'' = Some ds"
    "list_all2 (\<lambda>sym t. sym = createDebugSymbol sampleParser t \<and>
        symbol_range sym = rangeFromToken t) ds sampleTokens"
    by blast
  from ds(2) have "ds = map (createDebugSymbol sampleParser) sampleTokens"
    by (rule list_all2_eq_map) simp
  then have "map symbol_name ds = map image_t sampleTokens"
    by (simp add: createDebugSymbol_def sampleParser_def samplePredicates_def comp_def)
  with ds(1) have 2: "\<exists>syms. onDocumentSymbol 0 sampleParser
       (sampleServer\<lparr>settings := \<lparr>debug = True, linting = False\<rparr>\<rparr>) ''file:///a.q'' = Some syms \<and>
       map symbol_name syms = map image_t sampleTokens"
    by blast
  from 1 2 show ?thesis by blast
qed

section \<open>The resolver\<close>

text \<open>
  C5. For every token sequence, when the source is \<open>undefined\<close> and when the
  source token is not assignable (a keyword, a literal, an operator), the modelled
  \<open>findIdentifiers\<close> returns the empty collection for each of the four kinds.
\<close>

theorem findIdentifiers_spec_empty:
  "findIdentifiers_spec P k tokens None = [] \<and>
   (\<not> assignable P s \<longrightarrow> findIdentifiers_spec P k tokens (Some s) = [])"
  by (cases k) simp_all

theorem findIdentifiers_spec_empty_witness:
  "findIdentifiers_spec samplePredicates Definition sampleTokens (Some one) = [] \<and>
   findIdentifiers_spec samplePredicates Reference sampleTokens (Some one) = [] \<and>
   findIdentifiers_spec samplePredicates Rename sampleTokens (Some one) = [] \<and>
   findIdentifiers_spec samplePredicates Completion sampleTokens (Some one) = [] \<and>
   findIdentifiers_spec samplePredicates Completion sampleTokens None = []"
  using findIdentifiers_spec_empty [of samplePredicates Definition sampleTokens one]
    findIdentifiers_spec_empty [of samplePredicates Reference sampleTokens one]
    findIdentifiers_spec_empty [of samplePredicates Rename sampleTokens one]
    findIdentifiers_spec_empty [of samplePredicates Completion sampleTokens one]
  by (simp add: samplePredicates_def one_def tok_def)

lemma matches_refl: "matches t t"
  by (simp add: matches_def)

lemma resolve_Local_iff:
  "resolve P tokens t = Local sc img ns \<longleftrightarrow>
     localBinding P tokens t \<and> scope t = sc \<and> image_t t = img \<and> namespace t = ns"
  by (auto simp: resolve_def)

lemma resolve_Global_iff:
  "resolve P tokens t = Global img ns \<longleftrightarrow>
     \<not> localBinding P tokens t \<and> globalBinding P tokens t \<and> image_t t = img \<and> namespace t = ns"
  by (auto simp: resolve_def)

lemma assigned_local_iff:
  assumes "t \<in> set tokens" and "assigned P t \<noteq> None"
  shows "localBinding P tokens t \<longleftrightarrow> scope t \<noteq> None \<and> \<not> startsWithDot (image_t t)"
  using assms matches_refl by (auto simp: localBinding_def list_ex_iff)

lemma assigned_global_iff:
  assumes "t \<in> set tokens" and "assigned P t \<noteq> None"
  shows "\<not> localBinding P tokens t \<and> globalBinding P tokens t \<longleftrightarrow> globalAssignment P t"
  using assms matches_refl assigned_local_iff [OF assms]
  by (auto simp: globalBinding_def globalAssignment_def list_ex_iff)

lemma definition_local:
  assumes "assignable P s" and "localBinding P tokens s"
  shows "findIdentifiers_spec P Definition tokens (Some s) =
         filter (\<lambda>t. assigned P t \<noteq> None \<and> assignable P t \<and> scope t = scope s \<and> matches s t) tokens"
proof -
  have r: "resolve P tokens s = Local (scope s) (image_t s) (namespace s)"
    using assms(2) by (simp add: resolve_def)
  have s: "\<not> startsWithDot (image_t s)" "scope s \<noteq> None"
    using assms(2) by (simp_all add: localBinding_def)
  have "filter (\<lambda>t. assigned P t \<noteq> None \<and> assignable P t \<and>
                resolve P tokens t = resolve P tokens s) tokens =
        filter (\<lambda>t. assigned P t \<noteq> None \<and> assignable P t \<and> scope t = scope s \<and> matches s t) tokens"
  proof (rule filter_cong [OF refl])
    fix t assume t: "t \<in> set tokens"
    show "(assigned P t \<noteq> None \<and> assignable P t \<and> resolve P tokens t = resolve P tokens s) =
          (assigned P t \<noteq> None \<and> assignable P t \<and> scope t = scope s \<and> matches s t)"
      using s assigned_local_iff [OF t]
      by (auto simp: r resolve_Local_iff matches_def)
  qed
  with assms(1) r show ?thesis by simp
qed

lemma definition_global:
  assumes "assignable P s" and "\<not> localBinding P tokens s"
  shows "findIdentifiers_spec P Definition tokens (Some s) =
         filter (\<lambda>t. assignable P t \<and> globalAssignment P t \<and> matches s t) tokens"
proof (cases "globalBinding P tokens s")
  case True
  then have r: "resolve P tokens s = Global (image_t s) (namespace s)"
    using assms(2) by (simp add: resolve_def)
  have "filter (\<lambda>t. assigned P t \<noteq> None \<and> assignable P t \<and>
                resolve P tokens t = resolve P tokens s) tokens =
        filter (\<lambda>t. assignable P t \<and> globalAssignment P t \<and> matches s t) tokens"
  proof (rule filter_cong [OF refl])
    fix t assume t: "t \<in> set tokens"
    show "(assigned P t \<noteq> None \<and> assignable P t \<and> resolve P tokens t = resolve P tokens s) =
          (assignable P t \<and> globalAssignment P t \<and> matches s t)"
    proof (cases "assigned P t \<noteq> None")
      case True
      from assigned_global_iff [OF t True] True show ?thesis
        by (auto simp: r resolve_Global_iff matches_def)
    next
      case False
      then show ?thesis by (simp add: globalAssignment_def)
    qed
  qed
  with assms(1) r show ?thesis by simp
next
  case False
  then have r: "resolve P tokens s = Unresolved"
    using assms(2) by (simp add: resolve_def)
  from False have "\<forall>t\<in>set tokens. \<not> (globalAssignment P t \<and> matches s t)"
    by (simp add: globalBinding_def list_ex_iff)
  then have "filter (\<lambda>t. assignable P t \<and> globalAssignment P t \<and> matches s t) tokens = []"
    by (auto simp: filter_empty_conv)
  with r show ?thesis by simp
qed

lemma reference_members:
  assumes "k \<noteq> Completion" and "t \<in> set (findIdentifiers_spec P k tokens (Some s))"
  shows "resolve P tokens t = resolve P tokens s \<and> resolve P tokens s \<noteq> Unresolved"
  using assms by (cases k) (auto split: if_splits)

text \<open>
  C2. For every assignable source token whose scope is set, the modelled
  \<open>findIdentifiers\<close> first looks for a local binding, an assigned token of the same
  scope with the same image and namespace. When there is one, the definitions are
  the assigned tokens of that scope that match, and every reference or rename target
  lies in that scope. When there is none, resolution goes straight to the global
  level: the definitions are the matching global assignments (assigned tokens with no
  scope, or qualified), and no reference or rename target is a token bound locally in
  any lambda, so no binding of an intermediate enclosing lambda is ever used.
  A qualified source has no local binding: it resolves against its namespace
  whatever its scope.
\<close>

theorem findIdentifiers_spec_scoping:
  assumes "scope s = Some l" and "assignable P s"
  shows
  "(localBinding P tokens s \<longrightarrow>
      findIdentifiers_spec P Definition tokens (Some s) =
        filter (\<lambda>t. assigned P t \<noteq> None \<and> assignable P t \<and> scope t = Some l \<and> matches s t)
          tokens) \<and>
   (\<not> localBinding P tokens s \<longrightarrow>
      findIdentifiers_spec P Definition tokens (Some s) =
        filter (\<lambda>t. assignable P t \<and> assigned P t \<noteq> None \<and>
                  (scope t = None \<or> startsWithDot (image_t t)) \<and> matches s t)
          tokens) \<and>
   (\<forall>k. k \<noteq> Completion \<longrightarrow>
      (\<forall>t\<in>set (findIdentifiers_spec P k tokens (Some s)).
         matches s t \<and>
         (if localBinding P tokens s then scope t = Some l else \<not> localBinding P tokens t)))"
proof (intro conjI impI allI ballI)
  assume "localBinding P tokens s"
  from definition_local [OF assms(2) this] assms(1)
  show "findIdentifiers_spec P Definition tokens (Some s) =
        filter (\<lambda>t. assigned P t \<noteq> None \<and> assignable P t \<and> scope t = Some l \<and> matches s t)
          tokens"
    by simp
next
  assume "\<not> localBinding P tokens s"
  from definition_global [OF assms(2) this]
  show "findIdentifiers_spec P Definition tokens (Some s) =
        filter (\<lambda>t. assignable P t \<and> assigned P t \<noteq> None \<and>
                  (scope t = None \<or> startsWithDot (image_t t)) \<and> matches s t)
          tokens"
    by (simp add: globalAssignment_def)
next
  fix k t
  assume k: "k \<noteq> Completion" and t: "t \<in> set (findIdentifiers_spec P k tokens (Some s))"
  from reference_members [OF k t] have
    r: "resolve P tokens t = resolve P tokens s" "resolve P tokens s \<noteq> Unresolved"
    by simp_all
  show "matches s t"
    using r by (auto simp: resolve_def matches_def split: if_splits)
  show "if localBinding P tokens s then scope t = Some l else \<not> localBinding P tokens t"
    using r assms(1) by (auto simp: resolve_def split: if_splits)
qed

theorem findIdentifiers_spec_scoping_witness:
  "findIdentifiers_spec samplePredicates Definition sampleTokens (Some (sampleTokens ! 7)) =
     [sampleTokens ! 3] \<and>
   findIdentifiers_spec samplePredicates Definition sampleTokens (Some (sampleTokens ! 9)) =
     [sampleTokens ! 12]"
proof -
  have sx: "scope (sampleTokens ! 7) = Some lcurly" "assignable samplePredicates (sampleTokens ! 7)"
    by (simp_all add: sample_defs)
  have sy: "scope (sampleTokens ! 9) = Some lcurly" "assignable samplePredicates (sampleTokens ! 9)"
    by (simp_all add: sample_defs)
  have 1: "findIdentifiers_spec samplePredicates Definition sampleTokens (Some (sampleTokens ! 7)) =
     [sampleTokens ! 3]"
    using findIdentifiers_spec_scoping [OF sx, of sampleTokens] sample_local_x
    by (simp add: matches_def sample_defs)
  have 2: "findIdentifiers_spec samplePredicates Definition sampleTokens (Some (sampleTokens ! 9)) =
     [sampleTokens ! 12]"
    using findIdentifiers_spec_scoping [OF sy, of sampleTokens] sample_local_y
    by (simp add: matches_def sample_defs)
  from 1 2 show ?thesis by simp
qed

end
